theory Spec2Isabelle
  imports Complex_Main "HOL-Library.Multiset"
begin

section \<open>The recommendation engine of src/App.jsx\<close>

text \<open>
  The engine is the two pure functions \<^verbatim>\<open>getJaccardSimilarity\<close> (lines 53-64) and
  \<^verbatim>\<open>getSmartRecommendations\<close> (lines 66-97). Everything else in the file is React
  and Firestore wiring.

  Conventions of the embedding:
  \<^item> A JavaScript string is a \<open>string\<close>; a \<open>char\<close> is read as a UTF-16 code unit
    below 256 (Latin-1), which covers every keyword, stop word and stripped
    character of the source.
  \<^item> A JavaScript \<^verbatim>\<open>Set\<close> of strings is a HOL set; \<^verbatim>\<open>size\<close> is \<open>card\<close> and
    \<^verbatim>\<open>has\<close> is membership.
  \<^item> A JavaScript number is a \<open>rat option\<close>: \<open>Some q\<close> is the finite value \<open>q\<close>,
    \<open>None\<close> is the result of a division by zero (\<^verbatim>\<open>NaN\<close> or \<^verbatim>\<open>Infinity\<close>). The only
    numbers of the engine are quotients of two set sizes, compared with each other
    and with \<^verbatim>\<open>0.25\<close>; on such quotients the comparisons of IEEE doubles agree
    with those of the exact rationals as long as the sizes stay below \<open>2^26\<close>.
  \<^item> The clock is a parameter of \<open>getSmartRecommendations\<close>: \<open>clock n\<close> is the string
    \<^verbatim>\<open>date.toISOString().split('T')[0]\<close> of a \<^verbatim>\<open>new Date()\<close> that was moved by
    \<^verbatim>\<open>date.setDate(date.getDate() + n)\<close> (not moved at all for \<open>n = 0\<close>). The clock
    of a JavaScript engine, for a time zone and a reading of the system time, is
    \<open>js_clock\<close>.
\<close>

subsection \<open>String builtins\<close>

text \<open>
  \<^verbatim>\<open>String.prototype.toLowerCase\<close> on Latin-1: \<^verbatim>\<open>A-Z\<close> and the accented capitals
  \<^verbatim>\<open>U+00C0-U+00DE\<close> (without the multiplication sign \<^verbatim>\<open>U+00D7\<close>) move up by 32.
\<close>

definition toLowerCase_char :: "char \<Rightarrow> char" where
  "toLowerCase_char c =
     (let n = (of_char c :: nat)
      in if (65 \<le> n \<and> n \<le> 90) \<or> (192 \<le> n \<and> n \<le> 222 \<and> n \<noteq> 215)
         then char_of (n + 32) else c)"

definition toLowerCase :: "string \<Rightarrow> string" where
  "toLowerCase s = map toLowerCase_char s"

text \<open>\<^verbatim>\<open>s.includes(sub)\<close>: \<open>sub\<close> occurs in \<open>s\<close> as a contiguous substring.\<close>

fun startsWith :: "string \<Rightarrow> string \<Rightarrow> bool" where
  "startsWith s [] = True"
| "startsWith [] (p # ps) = False"
| "startsWith (c # cs) (p # ps) = (c = p \<and> startsWith cs ps)"

fun includes_str :: "string \<Rightarrow> string \<Rightarrow> bool" where
  "includes_str [] sub = (sub = [])"
| "includes_str (c # cs) sub = (startsWith (c # cs) sub \<or> includes_str cs sub)"

text \<open>The character class of the regular expression in \<^verbatim>\<open>replace\<close> (line 56).\<close>

definition strip_chars :: string where
  "strip_chars = ''.,/#!$%^&*;:{}=-_`~()''"

text \<open>The class \<^verbatim>\<open>\s\<close> of a JavaScript regular expression, below code unit 256.\<close>

definition is_space :: "char \<Rightarrow> bool" where
  "is_space c \<longleftrightarrow>
     c \<in> set [CHR 0x09, CHR 0x0A, CHR 0x0B, CHR 0x0C, CHR 0x0D, CHR '' '', CHR 0xA0]"

text \<open>
  \<^verbatim>\<open>s.split(/\s+/)\<close>: every maximal run of white space is one separator. A separator
  at the very start or end of the string leaves an empty string there, and the empty
  string splits into one empty string.
\<close>

fun split_ws :: "string \<Rightarrow> string list" where
  "split_ws [] = [[]]"
| "split_ws (c # cs) =
     (if is_space c
      then (if cs \<noteq> [] \<and> is_space (hd cs) then split_ws cs else [] # split_ws cs)
      else (case split_ws cs of [] \<Rightarrow> [[c]] | w # ws \<Rightarrow> (c # w) # ws))"

subsection \<open>getJaccardSimilarity (lines 53-64)\<close>

definition stopWords :: "string set" where
  "stopWords =
     {''a'', ''the'', ''is'', ''of'', ''and'', ''to'', ''in'', ''for'', ''with'', ''on'', ''my''}"

text \<open>The inner function \<^verbatim>\<open>normalize\<close> (lines 54-57).\<close>

definition normalize_text :: "string \<Rightarrow> string set" where
  "normalize_text text =
     set (filter (\<lambda>w. length w > 2 \<and> w \<notin> stopWords)
           (split_ws (filter (\<lambda>c. c \<notin> set strip_chars) (toLowerCase text))))"

type_synonym number = "rat option"

text \<open>The operator \<^verbatim>\<open>/\<close> on two sizes: no finite number when the divisor is zero.\<close>

definition js_divide :: "nat \<Rightarrow> nat \<Rightarrow> number" where
  "js_divide x y = (if y = 0 then None else Some (of_nat x / of_nat y))"

definition getJaccardSimilarity :: "string \<Rightarrow> string \<Rightarrow> number" where
  "getJaccardSimilarity text1 text2 =
     (let setA = normalize_text text1;
          setB = normalize_text text2
      in if card setA = 0 \<or> card setB = 0 then Some 0
         else (let inter_set = {x \<in> setA. x \<in> setB};
                   union_set = setA \<union> setB
               in js_divide (card inter_set) (card union_set)))"

subsection \<open>Cards and recommendations\<close>

text \<open>
  A card document. \<open>description\<close> and \<open>dueDate\<close> may be missing (\<open>None\<close>);
  \<open>listTitle\<close> is the title of the containing list, which the board view adds to
  the card it opens (line 201).
\<close>

record Card =
  card_id :: string
  title :: string
  description :: "string option"
  dueDate :: "string option"
  listTitle :: string

text \<open>An entry \<^verbatim>\<open>{ card: otherCard, similarity }\<close> of the related cards (line 91).\<close>

record item =
  card_ref :: Card
  similarity :: number

text \<open>The three shapes of object that are pushed to \<^verbatim>\<open>recs\<close>, by their \<^verbatim>\<open>type\<close>.\<close>

datatype recommendation =
    Date_rec (rec_text: string) (action: string) (rationale: string)
  | Move_rec (rec_text: string) (action: string) (rationale: string)
  | Related_rec (rec_text: string) (cards: "item list") (rationale: string)

fun rec_type :: "recommendation \<Rightarrow> string" where
  "rec_type (Date_rec t a r) = ''date''"
| "rec_type (Move_rec t a r) = ''move''"
| "rec_type (Related_rec t cs r) = ''related''"

text \<open>\<^verbatim>\<open>x || ''\<close> and the truth value of an optional string: the empty string is falsy.\<close>

definition or_empty :: "string option \<Rightarrow> string" where
  "or_empty x = (case x of None \<Rightarrow> [] | Some s \<Rightarrow> s)"

definition truthy :: "string option \<Rightarrow> bool" where
  "truthy x = (case x of None \<Rightarrow> False | Some s \<Rightarrow> s \<noteq> [])"

text \<open>Comparison and subtraction of numbers; with \<^verbatim>\<open>NaN\<close> every comparison is false.\<close>

definition js_gt :: "number \<Rightarrow> rat \<Rightarrow> bool" where
  "js_gt x t = (case x of None \<Rightarrow> False | Some q \<Rightarrow> t < q)"

definition js_minus :: "number \<Rightarrow> number \<Rightarrow> number" where
  "js_minus x y = (case x of None \<Rightarrow> None
                   | Some p \<Rightarrow> (case y of None \<Rightarrow> None | Some q \<Rightarrow> Some (p - q)))"

text \<open>
  \<^verbatim>\<open>Array.prototype.sort(cmp)\<close> is a builtin: ECMAScript requires it to be stable and
  to put \<open>b\<close> before \<open>a\<close> only where \<open>cmp a b\<close> is positive. It is modelled by the
  stable insertion sort, which inserts the elements from the right.
\<close>

fun insert_cmp :: "('a \<Rightarrow> 'a \<Rightarrow> number) \<Rightarrow> 'a \<Rightarrow> 'a list \<Rightarrow> 'a list" where
  "insert_cmp cmp x [] = [x]"
| "insert_cmp cmp x (y # ys) =
     (if js_gt (cmp x y) 0 then y # insert_cmp cmp x ys else x # y # ys)"

definition sort_cmp :: "('a \<Rightarrow> 'a \<Rightarrow> number) \<Rightarrow> 'a list \<Rightarrow> 'a list" where
  "sort_cmp cmp xs = foldr (insert_cmp cmp) xs []"

definition slice :: "nat \<Rightarrow> nat \<Rightarrow> 'a list \<Rightarrow> 'a list" where
  "slice i j xs = take (j - i) (drop i xs)"

subsection \<open>getSmartRecommendations (lines 66-97)\<close>

text \<open>Line 68.\<close>

definition content_of :: "Card \<Rightarrow> string" where
  "content_of c = toLowerCase (title c @ '' '' @ or_empty (description c))"

text \<open>
  Lines 71-78, the two variables \<^verbatim>\<open>date\<close> and \<^verbatim>\<open>rationale\<close> after the keyword
  tests: \<open>date\<close> is \<open>None\<close> for \<^verbatim>\<open>null\<close> and \<open>Some n\<close> for a \<^verbatim>\<open>new Date()\<close>
  moved by \<open>n\<close> days.
\<close>

definition date_rule :: "string \<Rightarrow> nat option \<times> string" where
  "date_rule content =
     (if includes_str content ''today'' \<or> includes_str content ''urgent''
         \<or> includes_str content ''asap''
      then (Some 0, ''Based on urgent keywords.'')
      else if includes_str content ''tomorrow'' \<or> includes_str content ''next day''
      then (Some 1, ''Based on short-term keywords.'')
      else if includes_str content ''next week'' \<or> includes_str content ''7 days''
      then (Some 7, ''Based on medium-term keywords.'')
      else (None, []))"

text \<open>Lines 89-91: the other cards, each with its similarity to \<open>content\<close>.\<close>

definition candidates :: "Card \<Rightarrow> string \<Rightarrow> Card list \<Rightarrow> item list" where
  "candidates c content allCards =
     map (\<lambda>otherCard.
            \<lparr>card_ref = otherCard,
             similarity = getJaccardSimilarity content
                            (title otherCard @ '' '' @ or_empty (description otherCard))\<rparr>)
         (filter (\<lambda>c'. card_id c' \<noteq> card_id c) allCards)"

text \<open>Line 92, up to the sort.\<close>

definition ranked :: "Card \<Rightarrow> string \<Rightarrow> Card list \<Rightarrow> item list" where
  "ranked c content allCards =
     sort_cmp (\<lambda>a b. js_minus (similarity b) (similarity a))
       (filter (\<lambda>item. js_gt (similarity item) (1 / 4)) (candidates c content allCards))"

definition relatedCards :: "Card \<Rightarrow> string \<Rightarrow> Card list \<Rightarrow> item list" where
  "relatedCards c content allCards = slice 0 3 (ranked c content allCards)"

definition getSmartRecommendations ::
    "(nat \<Rightarrow> string) \<Rightarrow> Card \<Rightarrow> Card list \<Rightarrow> recommendation list" where
  "getSmartRecommendations clock c allCards =
     (let recs0 = [];
          content = content_of c;
          currentList = listTitle c;
          date = fst (date_rule content);
          rationale = snd (date_rule content);
          recs1 =
            (if \<not> truthy (dueDate c)
             then (case date of
                     None \<Rightarrow> recs0
                   | Some n \<Rightarrow>
                       recs0 @ [Date_rec (''Suggest Due Date: '' @ clock n) (clock n) rationale])
             else recs0);
          recs2 =
            (if includes_str currentList ''To Do''
                \<and> (includes_str content ''started'' \<or> includes_str content ''working on'')
             then recs1 @ [Move_rec ''Suggest Move: In Progress'' ''In Progress''
                             ''Keywords suggest work has begun.'']
             else if includes_str currentList ''In Progress''
                \<and> (includes_str content ''done'' \<or> includes_str content ''complete'')
             then recs1 @ [Move_rec ''Suggest Move: Done'' ''Done''
                             ''Keywords suggest task is complete.'']
             else recs1);
          relatedCards = relatedCards c content allCards
      in if length relatedCards > 0
         then recs2 @ [Related_rec ''Suggested Related Cards:'' relatedCards
                         ''Content similarity analysis.'']
         else recs2)"

subsection \<open>The clock of Date (lines 73-80)\<close>

text \<open>
  A time value is a number of milliseconds since the epoch, in UTC. A time zone gives
  the offset of local time in milliseconds, for a UTC time value and for a local one
  (\<^verbatim>\<open>LocalTZA(t, true)\<close> and \<^verbatim>\<open>LocalTZA(t, false)\<close> of ECMAScript). The range check of
  \<^verbatim>\<open>TimeClip\<close> is left out: a reading of the system clock is far inside it.
\<close>

definition msPerDay :: int where
  "msPerDay = 86400000"

record zone =
  offset_at_utc :: "int \<Rightarrow> int"
  offset_at_local :: "int \<Rightarrow> int"

definition LocalTime :: "zone \<Rightarrow> int \<Rightarrow> int" where
  "LocalTime z t = t + offset_at_utc z t"

definition UTC_of :: "zone \<Rightarrow> int \<Rightarrow> int" where
  "UTC_of z t = t - offset_at_local z t"

definition Day :: "int \<Rightarrow> int" where
  "Day t = t div msPerDay"

definition TimeWithinDay :: "int \<Rightarrow> int" where
  "TimeWithinDay t = t mod msPerDay"

text \<open>
  The proleptic Gregorian calendar of ECMAScript, on day numbers: the day within the
  400-year era that starts on a first of March, the year within the era, the day within
  that year and its month counted from March.
\<close>

definition day_of_era :: "int \<Rightarrow> int" where
  "day_of_era d = (d + 719468) mod 146097"

definition year_of_era :: "int \<Rightarrow> int" where
  "year_of_era d =
     (day_of_era d - day_of_era d div 1460 + day_of_era d div 36524
        - day_of_era d div 146096) div 365"

definition day_of_year :: "int \<Rightarrow> int" where
  "day_of_year d =
     day_of_era d - (365 * year_of_era d + year_of_era d div 4 - year_of_era d div 100)"

definition month_from_march :: "int \<Rightarrow> int" where
  "month_from_march d = (5 * day_of_year d + 2) div 153"

text \<open>The day of the month (1 to 31), the month (1 to 12) and the year of a day number.\<close>

definition DateFromDay :: "int \<Rightarrow> int" where
  "DateFromDay d = day_of_year d - (153 * month_from_march d + 2) div 5 + 1"

definition MonthFromDay :: "int \<Rightarrow> int" where
  "MonthFromDay d =
     (if month_from_march d < 10 then month_from_march d + 3 else month_from_march d - 9)"

definition YearFromDay :: "int \<Rightarrow> int" where
  "YearFromDay d =
     year_of_era d + ((d + 719468) div 146097) * 400 + (if MonthFromDay d \<le> 2 then 1 else 0)"

text \<open>
  \<^verbatim>\<open>MakeDay(year, month, date)\<close>: the day number of the first of the month, plus
  \<open>date - 1\<close>; \<open>date\<close> may lie outside the month.
\<close>

definition MakeDay :: "int \<Rightarrow> int \<Rightarrow> int \<Rightarrow> int" where
  "MakeDay y m dt =
     (let y' = (if m \<le> 2 then y - 1 else y);
          yoe = y' mod 400;
          doy = (153 * (if m > 2 then m - 3 else m + 9) + 2) div 5;
          doe = yoe * 365 + yoe div 4 - yoe div 100 + doy
      in (y' div 400) * 146097 + doe - 719468 + dt - 1)"

text \<open>\<^verbatim>\<open>date.getDate()\<close> and the time value after \<^verbatim>\<open>date.setDate(dt)\<close>, in local time.\<close>

definition getDate :: "zone \<Rightarrow> int \<Rightarrow> int" where
  "getDate z t = DateFromDay (Day (LocalTime z t))"

definition setDate :: "zone \<Rightarrow> int \<Rightarrow> int \<Rightarrow> int" where
  "setDate z t dt =
     (let tl = LocalTime z t;
          newDate = MakeDay (YearFromDay (Day tl)) (MonthFromDay (Day tl)) dt * msPerDay
                      + TimeWithinDay tl
      in UTC_of z newDate)"

text \<open>
  \<^verbatim>\<open>date.toISOString().split('T')[0]\<close>: the calendar date of the time value in UTC, the
  year with four digits, or with a sign and six digits outside 0 to 9999.
\<close>

definition digit :: "int \<Rightarrow> char" where
  "digit n = ''0123456789'' ! nat (n mod 10)"

definition iso_date :: "int \<Rightarrow> string" where
  "iso_date d =
     (let y = YearFromDay d; m = MonthFromDay d; dt = DateFromDay d
      in (if 0 \<le> y \<and> y \<le> 9999
          then [digit (y div 1000), digit (y div 100), digit (y div 10), digit y]
          else (if y < 0 then ''-'' else ''+'')
               @ [digit (\<bar>y\<bar> div 100000), digit (\<bar>y\<bar> div 10000), digit (\<bar>y\<bar> div 1000),
                  digit (\<bar>y\<bar> div 100), digit (\<bar>y\<bar> div 10), digit \<bar>y\<bar>])
         @ ''-'' @ [digit (m div 10), digit m] @ ''-'' @ [digit (dt div 10), digit dt])"

definition toISODate :: "int \<Rightarrow> string" where
  "toISODate t = iso_date (Day t)"

text \<open>
  The clock of a run of \<^verbatim>\<open>getSmartRecommendations\<close> in time zone \<open>z\<close> when \<^verbatim>\<open>new Date()\<close>
  reads the time value \<open>now\<close>: lines 73 and 80 for \<open>n = 0\<close>, lines 75 or 77 and 80 for
  \<open>n = 1\<close> and \<open>n = 7\<close>.
\<close>

definition js_clock :: "zone \<Rightarrow> int \<Rightarrow> nat \<Rightarrow> string" where
  "js_clock z now n =
     (if n = 0 then toISODate now
      else toISODate (setDate z now (getDate z now + int n)))"

subsection \<open>Notions used to state the properties\<close>

text \<open>
  A token of \<open>s\<close>: a non-empty run of characters without white space that is bounded,
  on each side, by white space or by the end of the string.
\<close>

definition is_token :: "string \<Rightarrow> string \<Rightarrow> bool" where
  "is_token s w \<longleftrightarrow>
     w \<noteq> [] \<and> (\<forall>c\<in>set w. \<not> is_space c)
     \<and> (\<exists>pre post. s = pre @ w @ post
           \<and> (pre = [] \<or> is_space (last pre))
           \<and> (post = [] \<or> is_space (hd post)))"

text \<open>A token that does not start the string.\<close>

definition later_token :: "string \<Rightarrow> string \<Rightarrow> bool" where
  "later_token s w \<longleftrightarrow>
     w \<noteq> [] \<and> (\<forall>c\<in>set w. \<not> is_space c)
     \<and> (\<exists>pre post. s = pre @ w @ post
           \<and> pre \<noteq> [] \<and> is_space (last pre)
           \<and> (post = [] \<or> is_space (hd post)))"

text \<open>The ASCII punctuation characters, by code.\<close>

definition is_punctuation :: "char \<Rightarrow> bool" where
  "is_punctuation c =
     (let n = (of_char c :: nat)
      in (33 \<le> n \<and> n \<le> 47) \<or> (58 \<le> n \<and> n \<le> 64) \<or> (91 \<le> n \<and> n \<le> 96)
         \<or> (123 \<le> n \<and> n \<le> 126))"

text \<open>
  The normalizer as section 4.1 of the specification words it, with all punctuation
  stripped; it differs from \<open>normalize_text\<close> in the set of deleted characters only.
\<close>

definition normalize_spec :: "string \<Rightarrow> string set" where
  "normalize_spec text =
     set (filter (\<lambda>w. length w > 2 \<and> w \<notin> stopWords)
           (split_ws (filter (\<lambda>c. \<not> is_punctuation c) (toLowerCase text))))"

text \<open>The calendar day of a time value for the user, and in UTC.\<close>

definition local_day :: "zone \<Rightarrow> int \<Rightarrow> int" where
  "local_day z now = Day (LocalTime z now)"

definition utc_day :: "int \<Rightarrow> int" where
  "utc_day now = Day now"

text \<open>Two entries in descending order of similarity, both similarities being finite.\<close>

definition descending :: "item \<Rightarrow> item \<Rightarrow> bool" where
  "descending a b =
     (case similarity a of
        None \<Rightarrow> False
      | Some p \<Rightarrow> (case similarity b of None \<Rightarrow> False | Some q \<Rightarrow> q \<le> p))"

text \<open>
  The three consecutive blocks of \<^verbatim>\<open>getSmartRecommendations\<close> (lines 70-83, 84-88 and
  89-95), each as the list of what it pushes. Lemma \<open>getSmartRecommendations_blocks\<close>
  below shows that the function returns their concatenation.
\<close>

definition date_block :: "(nat \<Rightarrow> string) \<Rightarrow> Card \<Rightarrow> recommendation list" where
  "date_block clock c =
     (if \<not> truthy (dueDate c)
      then (case fst (date_rule (content_of c)) of
              None \<Rightarrow> []
            | Some n \<Rightarrow> [Date_rec (''Suggest Due Date: '' @ clock n) (clock n)
                           (snd (date_rule (content_of c)))])
      else [])"

definition move_block :: "Card \<Rightarrow> recommendation list" where
  "move_block c =
     (if includes_str (listTitle c) ''To Do''
         \<and> (includes_str (content_of c) ''started'' \<or> includes_str (content_of c) ''working on'')
      then [Move_rec ''Suggest Move: In Progress'' ''In Progress''
              ''Keywords suggest work has begun.'']
      else if includes_str (listTitle c) ''In Progress''
         \<and> (includes_str (content_of c) ''done'' \<or> includes_str (content_of c) ''complete'')
      then [Move_rec ''Suggest Move: Done'' ''Done'' ''Keywords suggest task is complete.'']
      else [])"

definition related_block :: "Card \<Rightarrow> Card list \<Rightarrow> recommendation list" where
  "related_block c allCards =
     (if length (relatedCards c (content_of c) allCards) > 0
      then [Related_rec ''Suggested Related Cards:'' (relatedCards c (content_of c) allCards)
              ''Content similarity analysis.'']
      else [])"

subsection \<open>Example boards\<close>

definition ex_clock :: "nat \<Rightarrow> string" where
  "ex_clock n =
     (if n = 0 then ''2026-11-03'' else if n = 1 then ''2026-11-04'' else ''2026-11-10'')"

text \<open>A board of three cards; the first one triggers all three kinds of recommendation.\<close>

definition card_login :: Card where
  "card_login = \<lparr>card_id = ''c1'', title = ''Fix login bug'',
     description = Some ''urgent: started today'', dueDate = None, listTitle = ''To Do''\<rparr>"

definition card_signup :: Card where
  "card_signup = \<lparr>card_id = ''c2'', title = ''Fix signup bug'',
     description = None, dueDate = Some [], listTitle = ''To Do''\<rparr>"

definition card_readme :: Card where
  "card_readme = \<lparr>card_id = ''c3'', title = ''Update README'',
     description = Some [], dueDate = Some ''2026-12-01'', listTitle = ''Done''\<rparr>"

definition board_cards :: "Card list" where
  "board_cards = [card_login, card_signup, card_readme]"

definition item_signup :: item where
  "item_signup = \<lparr>card_ref = card_signup, similarity = Some (2 / 7)\<rparr>"

text \<open>
  A board on which four cards clear the threshold, three of them with the same score,
  and one card sits exactly on the threshold.
\<close>

definition greek :: "string \<Rightarrow> string \<Rightarrow> Card" where
  "greek i t = \<lparr>card_id = i, title = t, description = None,
     dueDate = Some ''2026-12-01'', listTitle = ''Done''\<rparr>"

definition greek_target :: Card where
  "greek_target = greek ''k0'' ''Alpha Beta Gamma Delta''"

definition greek_cards :: "Card list" where
  "greek_cards =
     [greek ''k1'' ''alpha beta'', greek ''k2'' ''alpha'', greek_target,
      greek ''k3'' ''alpha beta gamma'', greek ''k4'' ''gamma delta'',
      greek ''k5'' ''delta alpha'', greek ''k6'' ''omega'']"

definition greek_top3 :: "item list" where
  "greek_top3 =
     [\<lparr>card_ref = greek ''k3'' ''alpha beta gamma'', similarity = Some (3 / 4)\<rparr>,
      \<lparr>card_ref = greek ''k1'' ''alpha beta'', similarity = Some (1 / 2)\<rparr>,
      \<lparr>card_ref = greek ''k4'' ''gamma delta'', similarity = Some (1 / 2)\<rparr>]"

text \<open>Cards for the date rule and for the move rule.\<close>

definition card_urgent :: Card where
  "card_urgent = \<lparr>card_id = ''d1'', title = ''Urgent: plan next week'',
     description = None, dueDate = None, listTitle = ''Backlog''\<rparr>"

definition card_tomorrow :: Card where
  "card_tomorrow = \<lparr>card_id = ''d2'', title = ''Call back'',
     description = Some ''Tomorrow or in 7 days'', dueDate = Some [], listTitle = ''Backlog''\<rparr>"

definition card_week :: Card where
  "card_week = \<lparr>card_id = ''d3'', title = ''Review'',
     description = Some ''due in 7 days'', dueDate = None, listTitle = ''Backlog''\<rparr>"

definition card_dated :: Card where
  "card_dated = \<lparr>card_id = ''d4'', title = ''Urgent: plan next week'',
     description = None, dueDate = Some ''2026-12-01'', listTitle = ''Backlog''\<rparr>"

definition card_started :: Card where
  "card_started = \<lparr>card_id = ''m1'', title = ''Report'',
     description = Some ''Started working on it'', dueDate = Some ''2026-12-01'',
     listTitle = ''To Do''\<rparr>"

definition card_done :: Card where
  "card_done = \<lparr>card_id = ''m2'', title = ''Report'',
     description = Some ''all done'', dueDate = None, listTitle = ''In Progress''\<rparr>"

definition card_archived :: Card where
  "card_archived = \<lparr>card_id = ''m3'', title = ''Report'',
     description = Some ''all done'', dueDate = None, listTitle = ''Done''\<rparr>"

text \<open>
  New York around the end of daylight saving time in 2026: four hours behind UTC until
  2026-11-01 06:00 UTC (02:00 on the local clock), five hours behind from then on. The
  time value is 2026-10-31 23:30 UTC, 19:30 on the evening before.
\<close>

definition new_york :: zone where
  "new_york =
     \<lparr>offset_at_utc = (\<lambda>t. if t < 1793512800000 then - 14400000 else - 18000000),
      offset_at_local = (\<lambda>t. if t < 1793498400000 then - 14400000 else - 18000000)\<rparr>"

definition october_31_evening :: int where
  "october_31_evening = 1793489400000"

text \<open>
  Kiritimati, fourteen hours ahead of UTC all year. The time value is 2026-11-03 20:00
  UTC, 10:00 on the morning of 2026-11-04 there.
\<close>

definition kiritimati :: zone where
  "kiritimati = \<lparr>offset_at_utc = (\<lambda>t. 50400000), offset_at_local = (\<lambda>t. 50400000)\<rparr>"

definition november_4_morning :: int where
  "november_4_morning = 1793736000000"

section \<open>Evaluation on concrete strings\<close>

lemmas lower_eval = toLowerCase_def toLowerCase_char_def char_of_def bit_Suc_0_iff

lemmas text_eval = normalize_text_def lower_eval strip_chars_def is_space_def stopWords_def

section \<open>Substrings\<close>

lemma startsWith_iff: "startsWith s p \<longleftrightarrow> (\<exists>post. s = p @ post)"
  by (induction s p rule: startsWith.induct) auto

lemma includes_str_iff: "includes_str s sub \<longleftrightarrow> (\<exists>pre post. s = pre @ sub @ post)"
proof (induction s)
  case Nil
  show ?case by auto
next
  case (Cons c cs)
  have "(\<exists>pre post. c # cs = pre @ sub @ post)
          \<longleftrightarrow> (\<exists>post. c # cs = sub @ post) \<or> (\<exists>pre post. cs = pre @ sub @ post)"
    (is "?A \<longleftrightarrow> ?B \<or> ?C")
  proof
    assume ?A
    then obtain pre post where e: "c # cs = pre @ sub @ post" by blast
    show "?B \<or> ?C"
    proof (cases pre)
      case Nil
      with e show ?thesis by auto
    next
      case (Cons p pre')
      with e have "cs = pre' @ sub @ post" by simp
      then show ?thesis by blast
    qed
  next
    assume "?B \<or> ?C"
    then show ?A
    proof
      assume ?B
      then obtain post where "c # cs = [] @ sub @ post" by auto
      then show ?A by blast
    next
      assume ?C
      then obtain pre post where "c # cs = (c # pre) @ sub @ post" by auto
      then show ?A by blast
    qed
  qed
  with Cons show ?case
    by (simp add: startsWith_iff)
qed

section \<open>The tokens of a split\<close>

lemma split_ws_not_Nil: "split_ws s \<noteq> []"
  by (induction s) (auto split: list.splits)

lemma hd_split_ws: "hd (split_ws s) = takeWhile (\<lambda>c. \<not> is_space c) s"
proof (induction s)
  case Nil
  show ?case by simp
next
  case (Cons c cs)
  show ?case
  proof (cases "is_space c")
    case True
    with Cons show ?thesis by (cases cs) auto
  next
    case False
    with Cons split_ws_not_Nil [of cs] show ?thesis
      by (auto split: list.splits)
  qed
qed

lemma first_token:
  "w = takeWhile (\<lambda>c. \<not> is_space c) s \<longleftrightarrow>
     (\<forall>c\<in>set w. \<not> is_space c)
     \<and> (\<exists>post. s = w @ post \<and> (post = [] \<or> is_space (hd post)))"
  (is "?L \<longleftrightarrow> ?R")
proof
  assume l: ?L
  have "s = w @ dropWhile (\<lambda>c. \<not> is_space c) s"
    by (simp add: l)
  moreover have "dropWhile (\<lambda>c. \<not> is_space c) s = []
      \<or> is_space (hd (dropWhile (\<lambda>c. \<not> is_space c) s))"
    using hd_dropWhile [of "\<lambda>c. \<not> is_space c" s] by blast
  moreover have "\<forall>c\<in>set w. \<not> is_space c"
    using l by (auto dest: set_takeWhileD)
  ultimately show ?R by blast
next
  assume r: ?R
  then obtain post where s: "s = w @ post" and post: "post = [] \<or> is_space (hd post)"
    by blast
  from post have "takeWhile (\<lambda>c. \<not> is_space c) post = []"
    by (cases post) auto
  with r s show ?L
    by (simp add: takeWhile_append2)
qed

lemma later_token_nonspace:
  assumes "\<not> is_space c"
  shows "later_token (c # cs) w \<longleftrightarrow> later_token cs w"
proof
  assume "later_token (c # cs) w"
  then obtain pre post where w: "w \<noteq> []" "\<forall>c\<in>set w. \<not> is_space c"
    and s: "c # cs = pre @ w @ post" and pre: "pre \<noteq> []" "is_space (last pre)"
    and post: "post = [] \<or> is_space (hd post)"
    unfolding later_token_def by blast
  from pre s obtain pre' where pre': "pre = c # pre'"
    by (cases pre) auto
  with pre assms have "pre' \<noteq> []" "is_space (last pre')"
    by (auto split: if_splits)
  moreover from s pre' have "cs = pre' @ w @ post" by simp
  ultimately show "later_token cs w"
    unfolding later_token_def using w post by blast
next
  assume "later_token cs w"
  then obtain pre post where w: "w \<noteq> []" "\<forall>c\<in>set w. \<not> is_space c"
    and s: "cs = pre @ w @ post" and pre: "pre \<noteq> []" "is_space (last pre)"
    and post: "post = [] \<or> is_space (hd post)"
    unfolding later_token_def by blast
  from s pre have "c # cs = (c # pre) @ w @ post" "c # pre \<noteq> []" "is_space (last (c # pre))"
    by simp_all
  then show "later_token (c # cs) w"
    unfolding later_token_def using w post by blast
qed

lemma later_token_space:
  assumes "is_space c"
  shows "later_token (c # cs) w \<longleftrightarrow>
           w \<noteq> [] \<and> w = takeWhile (\<lambda>c. \<not> is_space c) cs \<or> later_token cs w"
proof
  assume "later_token (c # cs) w"
  then obtain pre post where w: "w \<noteq> []" "\<forall>c\<in>set w. \<not> is_space c"
    and s: "c # cs = pre @ w @ post" and pre: "pre \<noteq> []" "is_space (last pre)"
    and post: "post = [] \<or> is_space (hd post)"
    unfolding later_token_def by blast
  from pre s obtain pre' where pre': "pre = c # pre'"
    by (cases pre) auto
  with s have cs: "cs = pre' @ w @ post" by simp
  show "w \<noteq> [] \<and> w = takeWhile (\<lambda>c. \<not> is_space c) cs \<or> later_token cs w"
  proof (cases "pre' = []")
    case True
    with cs w post have "w = takeWhile (\<lambda>c. \<not> is_space c) cs"
      unfolding first_token by simp
    with w show ?thesis by simp
  next
    case False
    with pre pre' have "is_space (last pre')" by simp
    with False cs w post have "later_token cs w"
      unfolding later_token_def by blast
    then show ?thesis ..
  qed
next
  assume "w \<noteq> [] \<and> w = takeWhile (\<lambda>c. \<not> is_space c) cs \<or> later_token cs w"
  then show "later_token (c # cs) w"
  proof
    assume a: "w \<noteq> [] \<and> w = takeWhile (\<lambda>c. \<not> is_space c) cs"
    then obtain post where "\<forall>c\<in>set w. \<not> is_space c" "cs = w @ post"
        "post = [] \<or> is_space (hd post)"
      using first_token [of w cs] by blast
    moreover from this have "c # cs = [c] @ w @ post" by simp
    ultimately show ?thesis
      unfolding later_token_def using a assms
      by (metis last.simps not_Cons_self2)
  next
    assume "later_token cs w"
    then obtain pre post where w: "w \<noteq> []" "\<forall>c\<in>set w. \<not> is_space c"
      and s: "cs = pre @ w @ post" and pre: "pre \<noteq> []" "is_space (last pre)"
      and post: "post = [] \<or> is_space (hd post)"
      unfolding later_token_def by blast
    from s pre have "c # cs = (c # pre) @ w @ post" "c # pre \<noteq> []"
        "is_space (last (c # pre))"
      by simp_all
    then show ?thesis
      unfolding later_token_def using w post by blast
  qed
qed

lemma tl_split_ws:
  "w \<noteq> [] \<Longrightarrow> w \<in> set (tl (split_ws s)) \<longleftrightarrow> later_token s w"
proof (induction s)
  case Nil
  then show ?case by (simp add: later_token_def)
next
  case (Cons c cs)
  show ?case
  proof (cases "is_space c")
    case False
    with Cons split_ws_not_Nil [of cs] show ?thesis
      by (auto simp: later_token_nonspace split: list.splits)
  next
    case True
    show ?thesis
    proof (cases "cs \<noteq> [] \<and> is_space (hd cs)")
      case True
      then have "takeWhile (\<lambda>c. \<not> is_space c) cs = []"
        by (cases cs) auto
      with True \<open>is_space c\<close> Cons show ?thesis
        by (auto simp: later_token_space)
    next
      case False
      have "set (split_ws cs) = insert (hd (split_ws cs)) (set (tl (split_ws cs)))"
        using split_ws_not_Nil [of cs] by (cases "split_ws cs") auto
      with False \<open>is_space c\<close> Cons show ?thesis
        by (auto simp: later_token_space hd_split_ws)
    qed
  qed
qed

lemma is_token_cases:
  "is_token s w \<longleftrightarrow>
     w \<noteq> [] \<and> (w = takeWhile (\<lambda>c. \<not> is_space c) s \<or> later_token s w)"
  unfolding is_token_def later_token_def first_token
  by (metis append_Nil)

lemma set_split_ws:
  "w \<noteq> [] \<Longrightarrow> w \<in> set (split_ws s) \<longleftrightarrow> is_token s w"
proof -
  assume w: "w \<noteq> []"
  have "set (split_ws s) = insert (hd (split_ws s)) (set (tl (split_ws s)))"
    using split_ws_not_Nil [of s] by (cases "split_ws s") auto
  with w show ?thesis
    by (simp add: is_token_cases hd_split_ws tl_split_ws)
qed

lemma is_token_set: "is_token s w \<Longrightarrow> set w \<subseteq> set s"
  by (auto simp: is_token_def)

lemma is_token_no_space: "is_token s w \<Longrightarrow> ch \<in> set w \<Longrightarrow> \<not> is_space ch"
  by (auto simp: is_token_def)

section \<open>The normalizer\<close>

lemma toLowerCase_char_idem: "toLowerCase_char (toLowerCase_char c) = toLowerCase_char c"
  by (auto simp add: toLowerCase_char_def Let_def)

lemma finite_normalize_text: "finite (normalize_text t)"
  by (simp add: normalize_text_def)

lemma normalize_text_iff:
  "w \<in> normalize_text t \<longleftrightarrow>
     is_token (filter (\<lambda>c. c \<notin> set strip_chars) (toLowerCase t)) w
     \<and> 2 < length w \<and> w \<notin> stopWords"
proof (cases "w = []")
  case True
  then show ?thesis by (simp add: normalize_text_def is_token_def)
next
  case False
  then show ?thesis by (auto simp: normalize_text_def set_split_ws)
qed

text \<open>
  C8, as amended. For every input string the normalizer returns a finite set, which holds
  exactly the tokens of the lower-cased input from which the characters
  \<^verbatim>\<open>. , / # ! $ % ^ & * ; : { } = - _ ` ~ ( )\<close> were deleted, that are longer than two
  characters and are no stop word. Every returned token is in lower case and free of the
  deleted characters and of white space. The empty string yields the empty set. Punctuation
  outside the deleted characters, such as a question mark or a quote, stays in the token.
\<close>

theorem normalize_text_tokens:
  "(w \<in> normalize_text t \<longleftrightarrow>
      is_token (filter (\<lambda>c. c \<notin> set strip_chars) (toLowerCase t)) w
      \<and> 2 < length w \<and> w \<notin> stopWords)
   \<and> (w \<in> normalize_text t \<longrightarrow>
        toLowerCase w = w \<and> (\<forall>ch\<in>set w. ch \<notin> set strip_chars \<and> \<not> is_space ch))
   \<and> finite (normalize_text t)
   \<and> normalize_text [] = {}"
proof -
  have lower: "toLowerCase w = w \<and> (\<forall>ch\<in>set w. ch \<notin> set strip_chars \<and> \<not> is_space ch)"
    if "w \<in> normalize_text t"
  proof -
    from that have tok: "is_token (filter (\<lambda>c. c \<notin> set strip_chars) (toLowerCase t)) w"
      by (simp add: normalize_text_iff)
    then have sub: "set w \<subseteq> set (filter (\<lambda>c. c \<notin> set strip_chars) (toLowerCase t))"
      by (rule is_token_set)
    have "toLowerCase_char ch = ch" if "ch \<in> set w" for ch
    proof -
      from that sub obtain c where "ch = toLowerCase_char c"
        by (auto simp: toLowerCase_def)
      then show ?thesis by (simp add: toLowerCase_char_idem)
    qed
    then have "toLowerCase w = w"
      by (simp add: toLowerCase_def map_idI)
    moreover have "\<forall>ch\<in>set w. ch \<notin> set strip_chars \<and> \<not> is_space ch"
      using sub is_token_no_space [OF tok] by auto
    ultimately show ?thesis by simp
  qed
  have "normalize_text [] = {}"
    by (simp add: normalize_text_def toLowerCase_def)
  with lower show ?thesis
    by (simp add: normalize_text_iff [symmetric] finite_normalize_text)
qed

theorem normalize_text_tokens_witness:
  "normalize_text ''Fix the log-in, ASAP!'' = {''fix'', ''login'', ''asap''}
   \<and> is_token ''fix the login asap'' ''login''
   \<and> toLowerCase ''login'' = ''login''"
proof -
  have n: "normalize_text ''Fix the log-in, ASAP!'' = {''fix'', ''login'', ''asap''}"
    by (simp add: text_eval)
  have s: "filter (\<lambda>c. c \<notin> set strip_chars) (toLowerCase ''Fix the log-in, ASAP!'')
             = ''fix the login asap''"
    by (simp add: strip_chars_def lower_eval)
  from normalize_text_tokens [of "''login''" "''Fix the log-in, ASAP!''"] n s
  show ?thesis by simp
qed

text \<open>
  C8 as stated fails: the question mark is punctuation and is not stripped, so the token
  of \<^verbatim>\<open>"Is it done?"\<close> is \<^verbatim>\<open>"done?"\<close>, where stripping all punctuation gives \<^verbatim>\<open>"done"\<close>.
\<close>

theorem normalize_keeps_punctuation:
  "normalize_text ''Is it done?'' = {''done?''} \<and> is_punctuation CHR ''?''
   \<and> normalize_spec ''Is it done?'' = {''done''}"
  by (simp add: normalize_spec_def is_punctuation_def text_eval)

section \<open>The similarity score\<close>

lemma card_normalize_text_0: "card (normalize_text t) = 0 \<longleftrightarrow> normalize_text t = {}"
  by (simp add: finite_normalize_text)

lemma of_nat_quotient_le_1: "x \<le> y \<Longrightarrow> (of_nat x :: rat) / of_nat y \<le> 1"
  by (cases "y = 0") (simp_all add: divide_le_eq_1)

lemma card_union_normalize_text:
  "card (normalize_text a \<union> normalize_text b) = 0
     \<longleftrightarrow> normalize_text a = {} \<and> normalize_text b = {}"
  by (simp add: finite_normalize_text)

lemma inter_normalize_text:
  "{x \<in> normalize_text a. x \<in> normalize_text b} = normalize_text a \<inter> normalize_text b"
  by auto

lemma getJaccardSimilarity_value:
  "getJaccardSimilarity a b =
     Some (if normalize_text a = {} \<or> normalize_text b = {} then 0
           else of_nat (card (normalize_text a \<inter> normalize_text b))
                / of_nat (card (normalize_text a \<union> normalize_text b)))"
  by (simp add: getJaccardSimilarity_def Let_def js_divide_def card_normalize_text_0
        inter_normalize_text card_union_normalize_text)

lemma normalize_text_stop_words: "normalize_text ''the a of'' = {}"
  by (simp add: text_eval)

lemma normalize_text_login: "normalize_text ''Fix login bug'' = {''fix'', ''login'', ''bug''}"
  by (simp add: text_eval)

lemma normalize_text_signup:
  "normalize_text ''fix the signup bug!'' = {''fix'', ''signup'', ''bug''}"
  by (simp add: text_eval)

lemma normalize_text_page:
  "normalize_text ''Update the login page'' = {''update'', ''login'', ''page''}"
  by (simp add: text_eval)

text \<open>
  C5. For all texts \<open>a\<close> and \<open>b\<close>, the similarity of \<open>a\<close> and \<open>b\<close> equals the similarity
  of \<open>b\<close> and \<open>a\<close>.
\<close>

theorem similarity_symmetric: "getJaccardSimilarity a b = getJaccardSimilarity b a"
  by (simp add: getJaccardSimilarity_value Int_commute Un_commute disj_commute)

theorem similarity_symmetric_witness:
  "getJaccardSimilarity ''Fix login bug'' ''fix the signup bug!'' = Some (1 / 2)
   \<and> getJaccardSimilarity ''fix the signup bug!'' ''Fix login bug'' = Some (1 / 2)"
  using similarity_symmetric [of "''Fix login bug''" "''fix the signup bug!''"]
  by (simp add: getJaccardSimilarity_value normalize_text_login normalize_text_signup
        card_insert_if)

text \<open>
  C6. For all texts \<open>a\<close> and \<open>b\<close>, the similarity is a finite number between 0 and 1
  inclusive, and the similarity of \<open>a\<close> with itself is 1 whenever \<open>a\<close> normalizes to at
  least one token.
\<close>

theorem similarity_range:
  "(\<exists>q. getJaccardSimilarity a b = Some q \<and> 0 \<le> q \<and> q \<le> 1)
   \<and> (normalize_text a \<noteq> {} \<longrightarrow> getJaccardSimilarity a a = Some 1)"
proof -
  have "card (normalize_text a \<inter> normalize_text b)
          \<le> card (normalize_text a \<union> normalize_text b)"
    by (rule card_mono) (auto simp: finite_normalize_text)
  then have "(of_nat (card (normalize_text a \<inter> normalize_text b)) :: rat)
               / of_nat (card (normalize_text a \<union> normalize_text b)) \<le> 1"
    by (rule of_nat_quotient_le_1)
  then show ?thesis
    by (simp add: getJaccardSimilarity_value card_normalize_text_0)
qed

theorem similarity_range_witness:
  "normalize_text ''Fix login bug'' \<noteq> {}
   \<and> getJaccardSimilarity ''Fix login bug'' ''Fix login bug'' = Some 1
   \<and> getJaccardSimilarity ''Fix login bug'' ''Update the login page'' = Some (1 / 5)"
  using similarity_range [of "''Fix login bug''" "''Update the login page''"]
  by (simp add: getJaccardSimilarity_value normalize_text_login normalize_text_page
        card_insert_if)

text \<open>
  C7. If the token set of either text is empty, the similarity is 0. Otherwise the union
  of the two token sets is not empty, so the quotient of the two sizes is taken with a
  divisor that is not zero; the result is a finite number in every case. In particular
  the similarity of the empty string with any text is 0, and so is that of a text made
  of stop words and of tokens shorter than 3 characters only, such as \<^verbatim>\<open>"the a of"\<close>.
\<close>

theorem similarity_empty_sets:
  "(normalize_text a = {} \<or> normalize_text b = {} \<longrightarrow> getJaccardSimilarity a b = Some 0)
   \<and> (normalize_text a \<noteq> {} \<and> normalize_text b \<noteq> {} \<longrightarrow>
        card (normalize_text a \<union> normalize_text b) \<noteq> 0
        \<and> getJaccardSimilarity a b
            = js_divide (card {x \<in> normalize_text a. x \<in> normalize_text b})
                (card (normalize_text a \<union> normalize_text b)))
   \<and> getJaccardSimilarity a b \<noteq> None
   \<and> getJaccardSimilarity [] b = Some 0 \<and> getJaccardSimilarity a [] = Some 0
   \<and> getJaccardSimilarity ''the a of'' b = Some 0
   \<and> getJaccardSimilarity a ''the a of'' = Some 0
   \<and> ((\<forall>w\<in>set (split_ws (filter (\<lambda>c. c \<notin> set strip_chars) (toLowerCase a))).
          length w < 3 \<or> w \<in> stopWords)
        \<longrightarrow> getJaccardSimilarity a b = Some 0 \<and> getJaccardSimilarity b a = Some 0)"
proof -
  have empty: "normalize_text [] = {}"
    by (simp add: normalize_text_def toLowerCase_def)
  have short: "normalize_text a = {}"
    if "\<forall>w\<in>set (split_ws (filter (\<lambda>c. c \<notin> set strip_chars) (toLowerCase a))).
          length w < 3 \<or> w \<in> stopWords"
    using that by (auto simp: normalize_text_def filter_empty_conv)
  have "getJaccardSimilarity a b
          = js_divide (card {x \<in> normalize_text a. x \<in> normalize_text b})
              (card (normalize_text a \<union> normalize_text b))"
    if "normalize_text a \<noteq> {}" "normalize_text b \<noteq> {}"
    using that by (simp add: getJaccardSimilarity_def Let_def card_normalize_text_0)
  with short show ?thesis
    by (simp add: getJaccardSimilarity_value empty normalize_text_stop_words
          card_union_normalize_text)
qed

theorem similarity_empty_sets_witness:
  "normalize_text ''the a of'' = {}
   \<and> getJaccardSimilarity ''the a of'' ''Fix login bug'' = Some 0
   \<and> getJaccardSimilarity ''Fix login bug'' [] = Some 0
   \<and> card (normalize_text ''Fix login bug'' \<union> normalize_text ''Update the login page'') = 5"
  using similarity_empty_sets [of "''the a of''" "''Fix login bug''"]
    similarity_empty_sets [of "''Fix login bug''" "''Update the login page''"]
  by (simp add: normalize_text_stop_words normalize_text_login normalize_text_page
        card_insert_if)

section \<open>The sort\<close>

lemma descending_iff:
  "descending a b \<longleftrightarrow> (\<exists>p q. similarity a = Some p \<and> similarity b = Some q \<and> q \<le> p)"
  by (cases "similarity a"; cases "similarity b") (simp_all add: descending_def)

lemma mset_insert_cmp: "mset (insert_cmp cmp x ys) = add_mset x (mset ys)"
  by (induction ys) auto

lemma set_insert_cmp: "set (insert_cmp cmp x ys) = insert x (set ys)"
  by (induction ys) auto

lemma mset_sort_cmp: "mset (sort_cmp cmp xs) = mset xs"
  by (induction xs) (auto simp: sort_cmp_def mset_insert_cmp)

lemma set_sort_cmp: "set (sort_cmp cmp xs) = set xs"
  using mset_sort_cmp [of cmp xs] by (metis set_mset_mset)

text \<open>Stability: the entries of one score keep their order.\<close>

lemma filter_insert_cmp:
  "filter (\<lambda>i. similarity i = s)
     (insert_cmp (\<lambda>a b. js_minus (similarity b) (similarity a)) x ys) =
   (if similarity x = s then x # filter (\<lambda>i. similarity i = s) ys
    else filter (\<lambda>i. similarity i = s) ys)"
  by (induction ys) (auto simp: js_gt_def js_minus_def split: option.splits)

lemma filter_sort_cmp:
  "filter (\<lambda>i. similarity i = s)
     (sort_cmp (\<lambda>a b. js_minus (similarity b) (similarity a)) xs) =
   filter (\<lambda>i. similarity i = s) xs"
  by (induction xs) (simp_all add: sort_cmp_def filter_insert_cmp)

lemma sorted_insert_cmp:
  assumes "sorted_wrt descending ys" "\<forall>i\<in>set (x # ys). similarity i \<noteq> None"
  shows "sorted_wrt descending
           (insert_cmp (\<lambda>a b. js_minus (similarity b) (similarity a)) x ys)"
  using assms
proof (induction ys)
  case Nil
  then show ?case by simp
next
  case (Cons y ys)
  from Cons.prems obtain p q where pq: "similarity x = Some p" "similarity y = Some q"
    by auto
  from Cons have ih: "sorted_wrt descending
      (insert_cmp (\<lambda>a b. js_minus (similarity b) (similarity a)) x ys)"
    by simp
  show ?case
  proof (cases "p < q")
    case True
    then have "descending y x"
      using pq by (simp add: descending_iff)
    with True pq ih Cons.prems show ?thesis
      by (simp add: js_gt_def js_minus_def set_insert_cmp)
  next
    case False
    then have xy: "descending x y"
      using pq by (simp add: descending_iff)
    have "descending x z" if "z \<in> set ys" for z
    proof -
      from that Cons.prems have "descending y z" by simp
      with False pq show ?thesis by (auto simp: descending_iff)
    qed
    with False pq xy Cons.prems show ?thesis
      by (simp add: js_gt_def js_minus_def)
  qed
qed

lemma sorted_sort_cmp:
  "\<forall>i\<in>set xs. similarity i \<noteq> None \<Longrightarrow>
   sorted_wrt descending (sort_cmp (\<lambda>a b. js_minus (similarity b) (similarity a)) xs)"
proof (induction xs)
  case Nil
  then show ?case by (simp add: sort_cmp_def)
next
  case (Cons x xs)
  then have "sorted_wrt descending
      (sort_cmp (\<lambda>a b. js_minus (similarity b) (similarity a)) xs)"
    by simp
  moreover have "\<forall>i\<in>set (x # sort_cmp (\<lambda>a b. js_minus (similarity b) (similarity a)) xs).
      similarity i \<noteq> None"
    using Cons.prems by (simp add: set_sort_cmp)
  ultimately show ?case
    unfolding sort_cmp_def foldr.simps o_apply
    by (rule sorted_insert_cmp [unfolded sort_cmp_def])
qed

section \<open>The related cards\<close>

lemma set_ranked:
  "set (ranked c content allCards) =
     {i \<in> set (candidates c content allCards). js_gt (similarity i) (1 / 4)}"
  by (simp add: ranked_def set_sort_cmp)

lemma relatedCards_take: "relatedCards c content allCards = take 3 (ranked c content allCards)"
  by (simp add: relatedCards_def slice_def)

lemma relatedCards_Nil:
  "relatedCards c content allCards = [] \<longleftrightarrow>
     \<not> (\<exists>i\<in>set (candidates c content allCards). js_gt (similarity i) (1 / 4))"
proof -
  have "relatedCards c content allCards = [] \<longleftrightarrow> set (ranked c content allCards) = {}"
    by (simp add: relatedCards_take)
  then show ?thesis
    unfolding set_ranked by blast
qed

lemma candidates_card_id:
  "i \<in> set (candidates c content allCards) \<Longrightarrow>
     card_ref i \<in> set allCards \<and> card_id (card_ref i) \<noteq> card_id c"
  by (auto simp: candidates_def)

lemma set_relatedCards:
  "i \<in> set (relatedCards c content allCards) \<Longrightarrow>
     i \<in> set (candidates c content allCards) \<and> js_gt (similarity i) (1 / 4)"
  using set_ranked [of c content allCards]
  by (auto simp: relatedCards_take dest: in_set_takeD)

lemma js_gt_Some: "js_gt x t \<longleftrightarrow> (\<exists>q. x = Some q \<and> t < q)"
  by (cases x) (simp_all add: js_gt_def)

section \<open>The three blocks of getSmartRecommendations\<close>

lemma getSmartRecommendations_blocks:
  "getSmartRecommendations clock c allCards =
     date_block clock c @ move_block c @ related_block c allCards"
  unfolding getSmartRecommendations_def date_block_def move_block_def related_block_def Let_def
  by (cases "fst (date_rule (content_of c))") simp_all

lemma date_block_type: "x \<in> set (date_block clock c) \<Longrightarrow> rec_type x = ''date''"
  unfolding date_block_def
  by (cases "truthy (dueDate c)"; cases "fst (date_rule (content_of c))") simp_all

lemma move_block_type: "x \<in> set (move_block c) \<Longrightarrow> rec_type x = ''move''"
  unfolding move_block_def
  by (simp split: if_split_asm)

lemma related_block_type: "x \<in> set (related_block c allCards) \<Longrightarrow> rec_type x = ''related''"
  unfolding related_block_def
  by (simp split: if_split_asm)

lemma filter_same:
  "(\<And>x. x \<in> set xs \<Longrightarrow> rec_type x = k) \<Longrightarrow> filter (\<lambda>r. rec_type r = k) xs = xs"
  by (simp add: filter_id_conv)

lemma filter_other:
  "(\<And>x. x \<in> set xs \<Longrightarrow> rec_type x = k') \<Longrightarrow> k' \<noteq> k
     \<Longrightarrow> filter (\<lambda>r. rec_type r = k) xs = []"
  by (auto simp: filter_empty_conv)

lemma filter_date:
  "filter (\<lambda>r. rec_type r = ''date'') (getSmartRecommendations clock c allCards)
     = date_block clock c"
  unfolding getSmartRecommendations_blocks filter_append
  by (simp add: filter_same [OF date_block_type] filter_other [OF move_block_type]
        filter_other [OF related_block_type])

lemma filter_move:
  "filter (\<lambda>r. rec_type r = ''move'') (getSmartRecommendations clock c allCards)
     = move_block c"
  unfolding getSmartRecommendations_blocks filter_append
  by (simp add: filter_same [OF move_block_type] filter_other [OF date_block_type]
        filter_other [OF related_block_type])

lemma filter_related:
  "filter (\<lambda>r. rec_type r = ''related'') (getSmartRecommendations clock c allCards)
     = related_block c allCards"
  unfolding getSmartRecommendations_blocks filter_append
  by (simp add: filter_same [OF related_block_type] filter_other [OF date_block_type]
        filter_other [OF move_block_type])

lemma related_block_cases:
  "related_block c allCards =
     (if \<exists>i\<in>set (candidates c (content_of c) allCards). js_gt (similarity i) (1 / 4)
      then [Related_rec ''Suggested Related Cards:'' (relatedCards c (content_of c) allCards)
              ''Content similarity analysis.'']
      else [])"
  unfolding related_block_def length_greater_0_conv relatedCards_Nil
  by simp

lemma length_date_block: "length (date_block clock c) \<le> 1"
  unfolding date_block_def
  by (cases "truthy (dueDate c)"; cases "fst (date_rule (content_of c))") simp_all

lemma length_move_block: "length (move_block c) \<le> 1"
  by (simp add: move_block_def)

lemma length_related_block: "length (related_block c allCards) \<le> 1"
  by (simp add: related_block_def)

lemma date_rule_None:
  "fst (date_rule content) = None \<longleftrightarrow>
     \<not> (includes_str content ''today'' \<or> includes_str content ''urgent''
        \<or> includes_str content ''asap'' \<or> includes_str content ''tomorrow''
        \<or> includes_str content ''next day'' \<or> includes_str content ''next week''
        \<or> includes_str content ''7 days'')"
  by (simp add: date_rule_def)

lemma date_block_Nil:
  "date_block clock c = [] \<longleftrightarrow> truthy (dueDate c) \<or> fst (date_rule (content_of c)) = None"
  unfolding date_block_def
  by (cases "truthy (dueDate c)"; cases "fst (date_rule (content_of c))") simp_all

lemma move_block_Nil:
  "move_block c = [] \<longleftrightarrow>
     \<not> (includes_str (listTitle c) ''To Do''
        \<and> (includes_str (content_of c) ''started'' \<or> includes_str (content_of c) ''working on''))
     \<and> \<not> (includes_str (listTitle c) ''In Progress''
        \<and> (includes_str (content_of c) ''done'' \<or> includes_str (content_of c) ''complete''))"
  by (auto simp: move_block_def)

lemma related_block_Nil:
  "related_block c allCards = [] \<longleftrightarrow>
     \<not> (\<exists>i\<in>set (candidates c (content_of c) allCards). js_gt (similarity i) (1 / 4))"
  by (simp add: related_block_cases)

section \<open>The example boards, evaluated\<close>

lemma card_login_facts:
  "content_of card_login = ''fix login bug urgent: started today''"
  "truthy (dueDate card_login) = False"
  "listTitle card_login = ''To Do''"
  by (simp_all add: content_of_def or_empty_def truthy_def card_login_def lower_eval)

lemma card_readme_facts:
  "content_of card_readme = ''update readme ''"
  "truthy (dueDate card_readme) = True"
  "listTitle card_readme = ''Done''"
  by (simp_all add: content_of_def or_empty_def truthy_def card_readme_def lower_eval)

lemma normalize_text_board:
  "normalize_text ''fix login bug urgent: started today''
     = {''fix'', ''login'', ''bug'', ''urgent'', ''started'', ''today''}"
  "normalize_text ''Fix signup bug '' = {''fix'', ''signup'', ''bug''}"
  "normalize_text ''Update README '' = {''update'', ''readme''}"
  "normalize_text ''update readme '' = {''update'', ''readme''}"
  "normalize_text ''Fix login bug urgent: started today''
     = {''fix'', ''login'', ''bug'', ''urgent'', ''started'', ''today''}"
  by (simp_all add: text_eval)

lemma similarity_board:
  "getJaccardSimilarity ''fix login bug urgent: started today'' ''Fix signup bug ''
     = Some (2 / 7)"
  "getJaccardSimilarity ''fix login bug urgent: started today'' ''Update README '' = Some 0"
  "getJaccardSimilarity ''update readme '' ''Fix signup bug '' = Some 0"
  "getJaccardSimilarity ''update readme '' ''Fix login bug urgent: started today'' = Some 0"
  by (simp_all add: getJaccardSimilarity_value normalize_text_board card_insert_if)

lemma candidates_login:
  "candidates card_login ''fix login bug urgent: started today'' board_cards =
     [item_signup, \<lparr>card_ref = card_readme, similarity = Some 0\<rparr>]"
  by (simp add: candidates_def board_cards_def card_login_def card_signup_def card_readme_def
        item_signup_def or_empty_def similarity_board)

lemma related_login:
  "relatedCards card_login ''fix login bug urgent: started today'' board_cards = [item_signup]"
  by (simp add: relatedCards_def ranked_def slice_def sort_cmp_def js_gt_def js_minus_def
        candidates_login item_signup_def)

lemma recs_login:
  "getSmartRecommendations ex_clock card_login board_cards =
     [Date_rec ''Suggest Due Date: 2026-11-03'' ''2026-11-03'' ''Based on urgent keywords.'',
      Move_rec ''Suggest Move: In Progress'' ''In Progress'' ''Keywords suggest work has begun.'',
      Related_rec ''Suggested Related Cards:'' [item_signup] ''Content similarity analysis.'']"
proof -
  have "date_block ex_clock card_login =
     [Date_rec ''Suggest Due Date: 2026-11-03'' ''2026-11-03'' ''Based on urgent keywords.'']"
    by (simp add: date_block_def card_login_facts date_rule_def ex_clock_def)
  moreover have "move_block card_login =
     [Move_rec ''Suggest Move: In Progress'' ''In Progress'' ''Keywords suggest work has begun.'']"
    by (simp add: move_block_def card_login_facts)
  moreover have "related_block card_login board_cards =
     [Related_rec ''Suggested Related Cards:'' [item_signup] ''Content similarity analysis.'']"
    by (simp add: related_block_def card_login_facts related_login)
  ultimately show ?thesis
    by (simp add: getSmartRecommendations_blocks)
qed

lemma candidates_readme:
  "candidates card_readme ''update readme '' board_cards =
     [\<lparr>card_ref = card_login, similarity = Some 0\<rparr>,
      \<lparr>card_ref = card_signup, similarity = Some 0\<rparr>]"
  by (simp add: candidates_def board_cards_def card_login_def card_signup_def card_readme_def
        or_empty_def similarity_board)

lemma recs_readme: "getSmartRecommendations ex_clock card_readme board_cards = []"
proof -
  have "date_block ex_clock card_readme = []"
    by (simp add: date_block_def card_readme_facts)
  moreover have "move_block card_readme = []"
    by (simp add: move_block_def card_readme_facts)
  moreover have "related_block card_readme board_cards = []"
    by (simp add: related_block_def card_readme_facts relatedCards_def ranked_def slice_def
          sort_cmp_def js_gt_def candidates_readme)
  ultimately show ?thesis
    by (simp add: getSmartRecommendations_blocks)
qed

lemma greek_target_facts:
  "content_of greek_target = ''alpha beta gamma delta ''"
  "truthy (dueDate greek_target) = True"
  "listTitle greek_target = ''Done''"
  by (simp_all add: content_of_def or_empty_def truthy_def greek_target_def greek_def lower_eval)

lemma normalize_text_greek:
  "normalize_text ''alpha beta gamma delta '' = {''alpha'', ''beta'', ''gamma'', ''delta''}"
  "normalize_text ''alpha beta '' = {''alpha'', ''beta''}"
  "normalize_text ''alpha '' = {''alpha''}"
  "normalize_text ''alpha beta gamma '' = {''alpha'', ''beta'', ''gamma''}"
  "normalize_text ''gamma delta '' = {''gamma'', ''delta''}"
  "normalize_text ''delta alpha '' = {''delta'', ''alpha''}"
  "normalize_text ''omega '' = {''omega''}"
  by (simp_all add: text_eval)

lemma similarity_greek:
  "getJaccardSimilarity ''alpha beta gamma delta '' ''alpha beta '' = Some (1 / 2)"
  "getJaccardSimilarity ''alpha beta gamma delta '' ''alpha '' = Some (1 / 4)"
  "getJaccardSimilarity ''alpha beta gamma delta '' ''alpha beta gamma '' = Some (3 / 4)"
  "getJaccardSimilarity ''alpha beta gamma delta '' ''gamma delta '' = Some (1 / 2)"
  "getJaccardSimilarity ''alpha beta gamma delta '' ''delta alpha '' = Some (1 / 2)"
  "getJaccardSimilarity ''alpha beta gamma delta '' ''omega '' = Some 0"
  by (simp_all add: getJaccardSimilarity_value normalize_text_greek card_insert_if)

lemma candidates_greek:
  "candidates greek_target ''alpha beta gamma delta '' greek_cards =
     [\<lparr>card_ref = greek ''k1'' ''alpha beta'', similarity = Some (1 / 2)\<rparr>,
      \<lparr>card_ref = greek ''k2'' ''alpha'', similarity = Some (1 / 4)\<rparr>,
      \<lparr>card_ref = greek ''k3'' ''alpha beta gamma'', similarity = Some (3 / 4)\<rparr>,
      \<lparr>card_ref = greek ''k4'' ''gamma delta'', similarity = Some (1 / 2)\<rparr>,
      \<lparr>card_ref = greek ''k5'' ''delta alpha'', similarity = Some (1 / 2)\<rparr>,
      \<lparr>card_ref = greek ''k6'' ''omega'', similarity = Some 0\<rparr>]"
  by (simp add: candidates_def greek_cards_def greek_target_def greek_def or_empty_def
        similarity_greek)

lemma ranked_greek:
  "ranked greek_target ''alpha beta gamma delta '' greek_cards =
     greek_top3 @ [\<lparr>card_ref = greek ''k5'' ''delta alpha'', similarity = Some (1 / 2)\<rparr>]"
  by (simp add: ranked_def sort_cmp_def js_gt_def js_minus_def candidates_greek greek_top3_def)

lemma related_greek:
  "relatedCards greek_target ''alpha beta gamma delta '' greek_cards = greek_top3"
  by (simp add: relatedCards_def slice_def ranked_greek) (simp add: greek_top3_def)

lemma recs_greek:
  "getSmartRecommendations ex_clock greek_target greek_cards =
     [Related_rec ''Suggested Related Cards:'' greek_top3 ''Content similarity analysis.'']"
proof -
  have "date_block ex_clock greek_target = []"
    by (simp add: date_block_def greek_target_facts)
  moreover have "move_block greek_target = []"
    by (simp add: move_block_def greek_target_facts)
  moreover have "related_block greek_target greek_cards =
     [Related_rec ''Suggested Related Cards:'' greek_top3 ''Content similarity analysis.'']"
    by (simp add: related_block_def greek_target_facts related_greek) (simp add: greek_top3_def)
  ultimately show ?thesis
    by (simp add: getSmartRecommendations_blocks)
qed

lemma date_cards_facts:
  "content_of card_urgent = ''urgent: plan next week ''"
  "truthy (dueDate card_urgent) = False"
  "content_of card_tomorrow = ''call back tomorrow or in 7 days''"
  "truthy (dueDate card_tomorrow) = False"
  "content_of card_week = ''review due in 7 days''"
  "truthy (dueDate card_week) = False"
  "content_of card_dated = ''urgent: plan next week ''"
  "truthy (dueDate card_dated) = True"
  by (simp_all add: content_of_def or_empty_def truthy_def card_urgent_def card_tomorrow_def
        card_week_def card_dated_def lower_eval)

lemma move_cards_facts:
  "content_of card_started = ''report started working on it''"
  "listTitle card_started = ''To Do''"
  "truthy (dueDate card_started) = True"
  "content_of card_done = ''report all done''"
  "listTitle card_done = ''In Progress''"
  "content_of card_archived = ''report all done''"
  "listTitle card_archived = ''Done''"
  by (simp_all add: content_of_def or_empty_def truthy_def card_started_def card_done_def
        card_archived_def lower_eval)

section \<open>The date rule\<close>

text \<open>
  The date suggestions in the result, for any clock, are decided by the first matching
  rule, in this order. A card whose due date is set yields none; a missing due date and
  an empty one both count as not set. Otherwise, with \<open>content\<close> the lower-cased title, a
  space and the description: if \<open>content\<close> contains \<^verbatim>\<open>today\<close>, \<^verbatim>\<open>urgent\<close> or \<^verbatim>\<open>asap\<close>, the one
  suggestion is the date of the clock with rationale \<^verbatim>\<open>Based on urgent keywords.\<close>; else if
  it contains \<^verbatim>\<open>tomorrow\<close> or \<^verbatim>\<open>next day\<close>, the date of the clock moved by 1 day with
  \<^verbatim>\<open>Based on short-term keywords.\<close>; else if it contains \<^verbatim>\<open>next week\<close> or \<^verbatim>\<open>7 days\<close>, the
  date of the clock moved by 7 days with \<^verbatim>\<open>Based on medium-term keywords.\<close>; else there is
  no date suggestion.
\<close>

lemma date_suggestions:
  "filter (\<lambda>r. rec_type r = ''date'') (getSmartRecommendations clock c allCards) =
     (if truthy (dueDate c) then []
      else if includes_str (content_of c) ''today'' \<or> includes_str (content_of c) ''urgent''
              \<or> includes_str (content_of c) ''asap''
      then [Date_rec (''Suggest Due Date: '' @ clock 0) (clock 0) ''Based on urgent keywords.'']
      else if includes_str (content_of c) ''tomorrow''
              \<or> includes_str (content_of c) ''next day''
      then [Date_rec (''Suggest Due Date: '' @ clock 1) (clock 1)
              ''Based on short-term keywords.'']
      else if includes_str (content_of c) ''next week''
              \<or> includes_str (content_of c) ''7 days''
      then [Date_rec (''Suggest Due Date: '' @ clock 7) (clock 7)
              ''Based on medium-term keywords.'']
      else [])"
  unfolding filter_date date_block_def date_rule_def
  by simp

lemma date_suggestions_examples:
  "filter (\<lambda>r. rec_type r = ''date'') (getSmartRecommendations ex_clock card_urgent [])
     = [Date_rec ''Suggest Due Date: 2026-11-03'' ''2026-11-03'' ''Based on urgent keywords.'']
   \<and> filter (\<lambda>r. rec_type r = ''date'') (getSmartRecommendations ex_clock card_tomorrow [])
     = [Date_rec ''Suggest Due Date: 2026-11-04'' ''2026-11-04''
          ''Based on short-term keywords.'']
   \<and> filter (\<lambda>r. rec_type r = ''date'') (getSmartRecommendations ex_clock card_week [])
     = [Date_rec ''Suggest Due Date: 2026-11-10'' ''2026-11-10''
          ''Based on medium-term keywords.'']
   \<and> filter (\<lambda>r. rec_type r = ''date'') (getSmartRecommendations ex_clock card_dated []) = []"
  by (simp add: date_suggestions date_cards_facts ex_clock_def)

section \<open>The dates of the clock\<close>

lemma day_of_era_2026:
  "day_of_era 20757 = 9740" "day_of_era 20758 = 9741" "day_of_era 20759 = 9742"
  "day_of_era 20760 = 9743" "day_of_era 20761 = 9744"
  by (simp_all add: day_of_era_def)

lemma digits:
  "digit 0 = CHR ''0''" "digit 1 = CHR ''1''" "digit 2 = CHR ''2''" "digit 3 = CHR ''3''"
  "digit 4 = CHR ''4''" "digit 20 = CHR ''0''" "digit 202 = CHR ''2''"
  "digit 2026 = CHR ''6''" "digit 10 = CHR ''0''" "digit 11 = CHR ''1''"
  "digit 31 = CHR ''1''"
  by (simp_all add: digit_def)

lemma civil_2026:
  "YearFromDay 20757 = 2026" "MonthFromDay 20757 = 10" "DateFromDay 20757 = 31"
  "YearFromDay 20758 = 2026" "MonthFromDay 20758 = 11" "DateFromDay 20758 = 1"
  "YearFromDay 20759 = 2026" "MonthFromDay 20759 = 11" "DateFromDay 20759 = 2"
  "YearFromDay 20760 = 2026" "MonthFromDay 20760 = 11" "DateFromDay 20760 = 3"
  "YearFromDay 20761 = 2026" "MonthFromDay 20761 = 11" "DateFromDay 20761 = 4"
  by (simp_all add: YearFromDay_def MonthFromDay_def DateFromDay_def month_from_march_def
        day_of_year_def year_of_era_def day_of_era_2026)

lemma iso_date_2026:
  "iso_date 20757 = ''2026-10-31''" "iso_date 20758 = ''2026-11-01''"
  "iso_date 20759 = ''2026-11-02''" "iso_date 20760 = ''2026-11-03''"
  "iso_date 20761 = ''2026-11-04''"
  by (simp_all add: iso_date_def civil_2026 digits)

lemma new_york_local:
  "LocalTime new_york october_31_evening = 1793475000000"
  "Day 1793475000000 = 20757"
  "TimeWithinDay 1793475000000 = 70200000"
  "Day october_31_evening = 20757"
  by (simp_all add: LocalTime_def Day_def TimeWithinDay_def msPerDay_def new_york_def
        october_31_evening_def)

lemma MakeDay_2026: "MakeDay 2026 10 32 = 20758"
  by (simp add: MakeDay_def)

lemma new_york_setDate: "setDate new_york october_31_evening 32 = 1793579400000"
  by (simp add: setDate_def new_york_local civil_2026 MakeDay_2026)
     (simp add: UTC_of_def msPerDay_def new_york_def)

lemma new_york_clock:
  "js_clock new_york october_31_evening 1 = ''2026-11-02''"
  "iso_date (local_day new_york october_31_evening) = ''2026-10-31''"
  "iso_date (utc_day october_31_evening) = ''2026-10-31''"
proof -
  have "getDate new_york october_31_evening = 31"
    by (simp add: getDate_def new_york_local civil_2026)
  moreover have "Day 1793579400000 = 20759"
    by (simp add: Day_def msPerDay_def)
  ultimately show "js_clock new_york october_31_evening 1 = ''2026-11-02''"
    by (simp add: js_clock_def toISODate_def new_york_setDate iso_date_2026)
  show "iso_date (local_day new_york october_31_evening) = ''2026-10-31''"
    by (simp add: local_day_def new_york_local iso_date_2026)
  show "iso_date (utc_day october_31_evening) = ''2026-10-31''"
    by (simp add: utc_day_def new_york_local iso_date_2026)
qed

lemma kiritimati_clock:
  "js_clock kiritimati november_4_morning 0 = ''2026-11-03''"
  "iso_date (local_day kiritimati november_4_morning) = ''2026-11-04''"
proof -
  have "Day november_4_morning = 20760"
    by (simp add: Day_def msPerDay_def november_4_morning_def)
  then show "js_clock kiritimati november_4_morning 0 = ''2026-11-03''"
    by (simp add: js_clock_def toISODate_def iso_date_2026)
  have "Day (LocalTime kiritimati november_4_morning) = 20761"
    by (simp add: Day_def LocalTime_def msPerDay_def november_4_morning_def kiritimati_def)
  then show "iso_date (local_day kiritimati november_4_morning) = ''2026-11-04''"
    by (simp add: local_day_def iso_date_2026)
qed

text \<open>
  C2. The order of the rules, the keywords, the rationales and the guard on the due date
  are as the claim has them (lemma \<open>date_suggestions\<close>), but the proposed date is not
  always today, today plus 1 day or today plus 7 days. Lines 75 and 77 move the date on
  the calendar of the local time zone (\<^verbatim>\<open>getDate\<close>, \<^verbatim>\<open>setDate\<close>) and line 80 prints the
  calendar date of UTC (\<^verbatim>\<open>toISOString\<close>). In New York at 19:30 on 2026-10-31, the evening
  before daylight saving time ends, today is 2026-10-31 on the local and on the UTC
  calendar, and a card without due date whose content contains \<^verbatim>\<open>tomorrow\<close> is offered
  2026-11-02, where today plus 1 day is 2026-11-01. In Kiritimati at 10:00 on 2026-11-04,
  a card whose content contains \<^verbatim>\<open>urgent\<close> is offered 2026-11-03, the day before the
  user's today.
\<close>

theorem date_suggestion_off_by_one:
  "filter (\<lambda>r. rec_type r = ''date'')
     (getSmartRecommendations (js_clock new_york october_31_evening) card_tomorrow [])
     = [Date_rec ''Suggest Due Date: 2026-11-02'' ''2026-11-02''
          ''Based on short-term keywords.'']
   \<and> iso_date (local_day new_york october_31_evening) = ''2026-10-31''
   \<and> iso_date (utc_day october_31_evening) = ''2026-10-31''
   \<and> iso_date (local_day new_york october_31_evening + 1) = ''2026-11-01''
   \<and> iso_date (utc_day october_31_evening + 1) = ''2026-11-01''
   \<and> filter (\<lambda>r. rec_type r = ''date'')
        (getSmartRecommendations (js_clock kiritimati november_4_morning) card_urgent [])
     = [Date_rec ''Suggest Due Date: 2026-11-03'' ''2026-11-03'' ''Based on urgent keywords.'']
   \<and> iso_date (local_day kiritimati november_4_morning) = ''2026-11-04''"
proof -
  have "iso_date (local_day new_york october_31_evening + 1) = ''2026-11-01''"
    "iso_date (utc_day october_31_evening + 1) = ''2026-11-01''"
    by (simp_all add: local_day_def utc_day_def new_york_local iso_date_2026)
  then show ?thesis
    unfolding date_suggestions
    by (simp add: date_cards_facts new_york_clock [unfolded One_nat_def] kiritimati_clock)
qed

section \<open>The move rule\<close>

text \<open>
  C3. The move suggestions in the result do not depend on the due date and are at most
  one: if the title of the containing list contains \<^verbatim>\<open>To Do\<close> and the content contains
  \<^verbatim>\<open>started\<close> or \<^verbatim>\<open>working on\<close>, the suggestion is \<^verbatim>\<open>In Progress\<close> with rationale
  \<^verbatim>\<open>Keywords suggest work has begun.\<close>; otherwise, if the list title contains
  \<^verbatim>\<open>In Progress\<close> and the content contains \<^verbatim>\<open>done\<close> or \<^verbatim>\<open>complete\<close>, it is \<^verbatim>\<open>Done\<close> with
  rationale \<^verbatim>\<open>Keywords suggest task is complete.\<close>; otherwise there is none. A card in a
  list titled \<^verbatim>\<open>Done\<close> yields no move suggestion.
\<close>

theorem move_rule_first_match:
  "filter (\<lambda>r. rec_type r = ''move'') (getSmartRecommendations clock c allCards) =
     (if includes_str (listTitle c) ''To Do''
         \<and> (includes_str (content_of c) ''started'' \<or> includes_str (content_of c) ''working on'')
      then [Move_rec ''Suggest Move: In Progress'' ''In Progress''
              ''Keywords suggest work has begun.'']
      else if includes_str (listTitle c) ''In Progress''
         \<and> (includes_str (content_of c) ''done'' \<or> includes_str (content_of c) ''complete'')
      then [Move_rec ''Suggest Move: Done'' ''Done'' ''Keywords suggest task is complete.'']
      else [])
   \<and> length (filter (\<lambda>r. rec_type r = ''move'') (getSmartRecommendations clock c allCards)) \<le> 1
   \<and> (listTitle c = ''Done'' \<longrightarrow>
        filter (\<lambda>r. rec_type r = ''move'') (getSmartRecommendations clock c allCards) = [])"
proof -
  have "move_block c = []" if "listTitle c = ''Done''"
    by (simp add: move_block_def that)
  then show ?thesis
    unfolding filter_move using length_move_block [of c]
    by (simp add: move_block_def [symmetric])
qed

theorem move_rule_first_match_witness:
  "filter (\<lambda>r. rec_type r = ''move'') (getSmartRecommendations ex_clock card_started [])
     = [Move_rec ''Suggest Move: In Progress'' ''In Progress''
          ''Keywords suggest work has begun.'']
   \<and> truthy (dueDate card_started)
   \<and> filter (\<lambda>r. rec_type r = ''move'') (getSmartRecommendations ex_clock card_done [])
     = [Move_rec ''Suggest Move: Done'' ''Done'' ''Keywords suggest task is complete.'']
   \<and> listTitle card_archived = ''Done''
   \<and> filter (\<lambda>r. rec_type r = ''move'') (getSmartRecommendations ex_clock card_archived [])
     = []"
  using move_rule_first_match [of ex_clock card_started "[]"]
    move_rule_first_match [of ex_clock card_done "[]"]
    move_rule_first_match [of ex_clock card_archived "[]"]
  by (simp add: move_cards_facts)

section \<open>The related cards in the result\<close>

text \<open>
  C1. The candidates are the cards of the collection other than the target, each scored
  by its similarity to the target's content. The ranked list holds exactly the candidates
  whose similarity is strictly greater than 0.25 (as a multiset), in descending order of
  similarity, and for every score the entries with that score are in their input order.
  The related cards are the first three entries of the ranked list, and the result holds
  a recommendation of type \<^verbatim>\<open>related\<close>, with these cards, if and only if some candidate
  clears the threshold.
\<close>

theorem related_cards_step:
  "map card_ref (candidates c (content_of c) allCards)
     = filter (\<lambda>c'. card_id c' \<noteq> card_id c) allCards
   \<and> (\<forall>i\<in>set (candidates c (content_of c) allCards).
         similarity i = getJaccardSimilarity (content_of c)
                          (title (card_ref i) @ '' '' @ or_empty (description (card_ref i))))
   \<and> mset (ranked c (content_of c) allCards)
       = mset (filter (\<lambda>i. js_gt (similarity i) (1 / 4)) (candidates c (content_of c) allCards))
   \<and> sorted_wrt descending (ranked c (content_of c) allCards)
   \<and> (\<forall>s. filter (\<lambda>i. similarity i = s) (ranked c (content_of c) allCards)
            = filter (\<lambda>i. similarity i = s)
                (filter (\<lambda>i. js_gt (similarity i) (1 / 4))
                   (candidates c (content_of c) allCards)))
   \<and> relatedCards c (content_of c) allCards = take 3 (ranked c (content_of c) allCards)
   \<and> filter (\<lambda>r. rec_type r = ''related'') (getSmartRecommendations clock c allCards)
       = (if \<exists>i\<in>set (candidates c (content_of c) allCards). js_gt (similarity i) (1 / 4)
          then [Related_rec ''Suggested Related Cards:''
                  (relatedCards c (content_of c) allCards) ''Content similarity analysis.'']
          else [])"
proof -
  have "map card_ref (candidates c (content_of c) allCards)
          = filter (\<lambda>c'. card_id c' \<noteq> card_id c) allCards"
    by (simp add: candidates_def o_def)
  moreover have "\<forall>i\<in>set (candidates c (content_of c) allCards).
         similarity i = getJaccardSimilarity (content_of c)
                          (title (card_ref i) @ '' '' @ or_empty (description (card_ref i)))"
    by (auto simp: candidates_def)
  moreover have "mset (ranked c (content_of c) allCards)
       = mset (filter (\<lambda>i. js_gt (similarity i) (1 / 4)) (candidates c (content_of c) allCards))"
    unfolding ranked_def by (rule mset_sort_cmp)
  moreover have "sorted_wrt descending (ranked c (content_of c) allCards)"
    unfolding ranked_def by (rule sorted_sort_cmp) (auto simp: js_gt_Some)
  moreover have "\<forall>s. filter (\<lambda>i. similarity i = s) (ranked c (content_of c) allCards)
            = filter (\<lambda>i. similarity i = s)
                (filter (\<lambda>i. js_gt (similarity i) (1 / 4))
                   (candidates c (content_of c) allCards))"
    unfolding ranked_def by (simp only: filter_sort_cmp) simp
  moreover note relatedCards_take [of c "content_of c" allCards]
  moreover note filter_related [of clock c allCards, unfolded related_block_cases]
  ultimately show ?thesis by blast
qed

theorem related_cards_step_witness:
  "ranked greek_target (content_of greek_target) greek_cards
     = greek_top3 @ [\<lparr>card_ref = greek ''k5'' ''delta alpha'', similarity = Some (1 / 2)\<rparr>]
   \<and> relatedCards greek_target (content_of greek_target) greek_cards = greek_top3
   \<and> filter (\<lambda>r. rec_type r = ''related'')
        (getSmartRecommendations ex_clock greek_target greek_cards)
       = [Related_rec ''Suggested Related Cards:'' greek_top3 ''Content similarity analysis.'']
   \<and> filter (\<lambda>r. rec_type r = ''related'')
        (getSmartRecommendations ex_clock card_readme board_cards) = []"
  using related_cards_step [of greek_target greek_cards ex_clock]
    related_cards_step [of card_readme board_cards ex_clock]
  by (simp add: greek_target_facts ranked_greek related_greek recs_greek recs_readme)

text \<open>
  C9. No card in the ranked cards of a related-cards recommendation has the identifier
  of the target card.
\<close>

theorem related_excludes_target:
  "Related_rec t its r \<in> set (getSmartRecommendations clock c allCards) \<Longrightarrow>
   i \<in> set its \<Longrightarrow> card_id (card_ref i) \<noteq> card_id c"
proof -
  assume a: "Related_rec t its r \<in> set (getSmartRecommendations clock c allCards)"
    and i: "i \<in> set its"
  from a have "Related_rec t its r
      \<in> set (filter (\<lambda>r. rec_type r = ''related'') (getSmartRecommendations clock c allCards))"
    by simp
  then have "its = relatedCards c (content_of c) allCards"
    unfolding filter_related related_block_def by (simp split: if_split_asm)
  with i show ?thesis
    using set_relatedCards candidates_card_id by blast
qed

theorem related_excludes_target_witness:
  "card_login \<in> set board_cards
   \<and> Related_rec ''Suggested Related Cards:'' [item_signup] ''Content similarity analysis.''
       \<in> set (getSmartRecommendations ex_clock card_login board_cards)
   \<and> item_signup \<in> set [item_signup]
   \<and> card_id (card_ref item_signup) \<noteq> card_id card_login"
proof -
  have r: "Related_rec ''Suggested Related Cards:'' [item_signup] ''Content similarity analysis.''
       \<in> set (getSmartRecommendations ex_clock card_login board_cards)"
    by (simp add: recs_login)
  have i: "item_signup \<in> set [item_signup]"
    by simp
  from related_excludes_target [OF r i] r show ?thesis
    by (simp add: board_cards_def)
qed

section \<open>The shape of the result\<close>

text \<open>
  C10. The result holds at most three recommendations: at most one of type \<^verbatim>\<open>date\<close>, at
  most one of type \<^verbatim>\<open>move\<close> and at most one of type \<^verbatim>\<open>related\<close>. A recommendation of type
  \<^verbatim>\<open>related\<close> in the result carries between 1 and 3 cards, each with a similarity strictly
  greater than 0.25.
\<close>

theorem recommendations_bounds:
  "length (getSmartRecommendations clock c allCards) \<le> 3
   \<and> length (filter (\<lambda>r. rec_type r = ''date'') (getSmartRecommendations clock c allCards)) \<le> 1
   \<and> length (filter (\<lambda>r. rec_type r = ''move'') (getSmartRecommendations clock c allCards)) \<le> 1
   \<and> length (filter (\<lambda>r. rec_type r = ''related'') (getSmartRecommendations clock c allCards))
       \<le> 1
   \<and> (Related_rec t its r \<in> set (getSmartRecommendations clock c allCards) \<longrightarrow>
        1 \<le> length its \<and> length its \<le> 3
        \<and> (\<forall>i\<in>set its. \<exists>q. similarity i = Some q \<and> 1 / 4 < q))"
proof -
  have len: "length (getSmartRecommendations clock c allCards) \<le> 3"
    unfolding getSmartRecommendations_blocks
    using length_date_block [of clock c] length_move_block [of c]
      length_related_block [of c allCards]
    by simp
  have rel: "1 \<le> length its \<and> length its \<le> 3
        \<and> (\<forall>i\<in>set its. \<exists>q. similarity i = Some q \<and> 1 / 4 < q)"
    if a: "Related_rec t its r \<in> set (getSmartRecommendations clock c allCards)"
  proof -
    from a have "Related_rec t its r
        \<in> set (filter (\<lambda>r. rec_type r = ''related'') (getSmartRecommendations clock c allCards))"
      by simp
    then have its: "its = relatedCards c (content_of c) allCards" and ne: "its \<noteq> []"
      unfolding filter_related related_block_def by (simp_all split: if_split_asm)
    from ne have "1 \<le> length its"
      by (cases its) simp_all
    moreover have "length its \<le> 3"
      by (simp add: its relatedCards_take)
    moreover have "\<forall>i\<in>set its. \<exists>q. similarity i = Some q \<and> 1 / 4 < q"
      using set_relatedCards [of _ c "content_of c" allCards]
      by (auto simp: its js_gt_Some)
    ultimately show ?thesis by simp
  qed
  from len rel show ?thesis
    unfolding filter_date filter_move filter_related
    using length_date_block [of clock c] length_move_block [of c]
      length_related_block [of c allCards]
    by blast
qed

theorem recommendations_bounds_witness:
  "length (candidates greek_target (content_of greek_target) greek_cards) = 6
   \<and> Related_rec ''Suggested Related Cards:'' greek_top3 ''Content similarity analysis.''
       \<in> set (getSmartRecommendations ex_clock greek_target greek_cards)
   \<and> length greek_top3 = 3
   \<and> map similarity greek_top3 = [Some (3 / 4), Some (1 / 2), Some (1 / 2)]
   \<and> length (getSmartRecommendations ex_clock card_login board_cards) = 3"
  using recommendations_bounds [of ex_clock greek_target greek_cards
      "''Suggested Related Cards:''" greek_top3 "''Content similarity analysis.''"]
    recommendations_bounds [of ex_clock card_login board_cards]
  by (simp add: recs_greek recs_login greek_target_facts candidates_greek)
     (simp add: greek_top3_def)

text \<open>
  C4. The result lists the date suggestion first, then the move suggestion, then the
  related-cards suggestion, each present at most once, the related cards as one entry.
  It is empty exactly when none applies: the due date is set or no date keyword
  occurs, neither move rule matches, and no candidate clears the threshold.
\<close>

theorem recommendations_order:
  "getSmartRecommendations clock c allCards
     = filter (\<lambda>r. rec_type r = ''date'') (getSmartRecommendations clock c allCards)
       @ filter (\<lambda>r. rec_type r = ''move'') (getSmartRecommendations clock c allCards)
       @ filter (\<lambda>r. rec_type r = ''related'') (getSmartRecommendations clock c allCards)
   \<and> length (filter (\<lambda>r. rec_type r = ''date'') (getSmartRecommendations clock c allCards)) \<le> 1
   \<and> length (filter (\<lambda>r. rec_type r = ''move'') (getSmartRecommendations clock c allCards)) \<le> 1
   \<and> length (filter (\<lambda>r. rec_type r = ''related'') (getSmartRecommendations clock c allCards))
       \<le> 1
   \<and> (getSmartRecommendations clock c allCards = [] \<longleftrightarrow>
        (truthy (dueDate c)
         \<or> \<not> (includes_str (content_of c) ''today'' \<or> includes_str (content_of c) ''urgent''
              \<or> includes_str (content_of c) ''asap'' \<or> includes_str (content_of c) ''tomorrow''
              \<or> includes_str (content_of c) ''next day''
              \<or> includes_str (content_of c) ''next week''
              \<or> includes_str (content_of c) ''7 days''))
        \<and> \<not> (includes_str (listTitle c) ''To Do''
              \<and> (includes_str (content_of c) ''started''
                  \<or> includes_str (content_of c) ''working on''))
        \<and> \<not> (includes_str (listTitle c) ''In Progress''
              \<and> (includes_str (content_of c) ''done''
                  \<or> includes_str (content_of c) ''complete''))
        \<and> \<not> (\<exists>i\<in>set (candidates c (content_of c) allCards). js_gt (similarity i) (1 / 4)))"
proof -
  have "getSmartRecommendations clock c allCards = [] \<longleftrightarrow>
          date_block clock c = [] \<and> move_block c = [] \<and> related_block c allCards = []"
    by (simp add: getSmartRecommendations_blocks)
  then have empty: "getSmartRecommendations clock c allCards = [] \<longleftrightarrow>
        (truthy (dueDate c)
         \<or> \<not> (includes_str (content_of c) ''today'' \<or> includes_str (content_of c) ''urgent''
              \<or> includes_str (content_of c) ''asap'' \<or> includes_str (content_of c) ''tomorrow''
              \<or> includes_str (content_of c) ''next day''
              \<or> includes_str (content_of c) ''next week''
              \<or> includes_str (content_of c) ''7 days''))
        \<and> \<not> (includes_str (listTitle c) ''To Do''
              \<and> (includes_str (content_of c) ''started''
                  \<or> includes_str (content_of c) ''working on''))
        \<and> \<not> (includes_str (listTitle c) ''In Progress''
              \<and> (includes_str (content_of c) ''done''
                  \<or> includes_str (content_of c) ''complete''))
        \<and> \<not> (\<exists>i\<in>set (candidates c (content_of c) allCards). js_gt (similarity i) (1 / 4))"
    unfolding date_block_Nil move_block_Nil related_block_Nil date_rule_None
    by (simp only: conj_assoc)
  have "getSmartRecommendations clock c allCards
     = filter (\<lambda>r. rec_type r = ''date'') (getSmartRecommendations clock c allCards)
       @ filter (\<lambda>r. rec_type r = ''move'') (getSmartRecommendations clock c allCards)
       @ filter (\<lambda>r. rec_type r = ''related'') (getSmartRecommendations clock c allCards)"
    unfolding filter_date filter_move filter_related
    by (rule getSmartRecommendations_blocks)
  moreover have
    "length (filter (\<lambda>r. rec_type r = ''date'') (getSmartRecommendations clock c allCards)) \<le> 1"
    "length (filter (\<lambda>r. rec_type r = ''move'') (getSmartRecommendations clock c allCards)) \<le> 1"
    "length (filter (\<lambda>r. rec_type r = ''related'') (getSmartRecommendations clock c allCards))
       \<le> 1"
    unfolding filter_date filter_move filter_related
    by (rule length_date_block length_move_block length_related_block)+
  ultimately show ?thesis
    using empty by blast
qed

theorem recommendations_order_witness:
  "getSmartRecommendations ex_clock card_login board_cards =
     [Date_rec ''Suggest Due Date: 2026-11-03'' ''2026-11-03'' ''Based on urgent keywords.'',
      Move_rec ''Suggest Move: In Progress'' ''In Progress'' ''Keywords suggest work has begun.'',
      Related_rec ''Suggested Related Cards:'' [item_signup] ''Content similarity analysis.'']
   \<and> getSmartRecommendations ex_clock card_readme board_cards = []
   \<and> truthy (dueDate card_readme)
   \<and> \<not> includes_str (listTitle card_readme) ''To Do''
   \<and> \<not> includes_str (listTitle card_readme) ''In Progress''
   \<and> \<not> (\<exists>i\<in>set (candidates card_readme (content_of card_readme) board_cards).
            js_gt (similarity i) (1 / 4))"
  using recommendations_order [of ex_clock card_login board_cards]
    recommendations_order [of ex_clock card_readme board_cards]
  by (simp add: recs_login recs_readme card_readme_facts)

end
